theory Spec2Isabelle
  imports Main
begin

section \<open>Strings\<close>

text \<open>
  Python strings are modelled as HOL strings. The helpers below are the string operations
  the client uses: the \<^verbatim>\<open>in\<close> substring test, \<^verbatim>\<open>startswith\<close>,
  \<^verbatim>\<open>str()\<close> of an integer, \<^verbatim>\<open>strip\<close>, \<^verbatim>\<open>upper\<close> and
  \<^verbatim>\<open>lower\<close> on ASCII text.
\<close>

definition startswith :: "string \<Rightarrow> string \<Rightarrow> bool" where
  "startswith s p = (take (length p) s = p)"

fun str_contains :: "string \<Rightarrow> string \<Rightarrow> bool" where
  "str_contains sub [] = (sub = [])"
| "str_contains sub (c # cs) = (startswith (c # cs) sub \<or> str_contains sub cs)"

definition digit_char :: "nat \<Rightarrow> char" where
  "digit_char d = char_of (48 + d)"

fun str_of_nat :: "nat \<Rightarrow> string" where
  "str_of_nat n = (if n < 10 then [digit_char n] else str_of_nat (n div 10) @ [digit_char (n mod 10)])"

definition str_of_int :: "int \<Rightarrow> string" where
  "str_of_int i = (if i < 0 then CHR ''-'' # str_of_nat (nat (- i)) else str_of_nat (nat i))"

definition is_space :: "char \<Rightarrow> bool" where
  "is_space c = (c \<in> set [CHR '' '', CHR 0x09, CHR 0x0A, CHR 0x0B, CHR 0x0C, CHR 0x0D])"

definition strip :: "string \<Rightarrow> string" where
  "strip s = rev (dropWhile is_space (rev (dropWhile is_space s)))"

definition upper_char :: "char \<Rightarrow> char" where
  "upper_char c =
     (if (97::nat) \<le> of_char c \<and> of_char c \<le> (122::nat) then char_of (of_char c - (32::nat)) else c)"

definition lower_char :: "char \<Rightarrow> char" where
  "lower_char c =
     (if (65::nat) \<le> of_char c \<and> of_char c \<le> (90::nat) then char_of (of_char c + (32::nat)) else c)"

definition upper :: "string \<Rightarrow> string" where
  "upper s = map upper_char s"

definition lower :: "string \<Rightarrow> string" where
  "lower s = map lower_char s"

section \<open>Job status poller\<close>

text \<open>
  \<^verbatim>\<open>OctaGSTClient.check_job_status\<close> builds a lookup table from vendor job-status codes
  to canonical statuses and reads it with \<^verbatim>\<open>status_mapping.get(code, 'unknown')\<close>.
  The table is kept as the association list the source writes.
\<close>

definition status_mapping :: "(int \<times> string) list" where
  "status_mapping =
     [(100, ''completed''),
      (0, ''pending''),
      (1, ''processing''),
      (2, ''processing''),
      (-1, ''failed''),
      (-2, ''cancelled''),
      (99, ''expired'')]"

text \<open>
  The \<^verbatim>\<open>jobStatus\<close> field may be absent from the vendor's reply, in which case
  \<^verbatim>\<open>data.get('jobStatus')\<close> is \<^verbatim>\<open>None\<close>, which is no key of the table.
\<close>

definition derive_status :: "int option \<Rightarrow> string" where
  "derive_status job_status_code =
     (case job_status_code of
        None \<Rightarrow> ''unknown''
      | Some c \<Rightarrow> (case map_of status_mapping c of Some s \<Rightarrow> s | None \<Rightarrow> ''unknown''))"

section \<open>Properties\<close>

subsection \<open>Status mapping\<close>

lemma derive_status_table:
  "derive_status (Some 100) = ''completed''"
  "derive_status (Some 0) = ''pending''"
  "derive_status (Some 1) = ''processing''"
  "derive_status (Some 2) = ''processing''"
  "derive_status (Some (-1)) = ''failed''"
  "derive_status (Some (-2)) = ''cancelled''"
  "derive_status (Some 99) = ''expired''"
  by (simp_all add: derive_status_def status_mapping_def)

lemma derive_status_other:
  "c \<notin> {100, 0, 1, 2, -1, -2, 99} \<Longrightarrow> derive_status (Some c) = ''unknown''"
  by (simp add: derive_status_def status_mapping_def)

text \<open>
  C3. The status derived by \<^verbatim>\<open>check_job_status\<close> follows the fixed table
  100 to completed, 0 to pending, 1 and 2 to processing, -1 to failed, -2 to cancelled,
  99 to expired; every code outside the table (and a missing code) gives unknown, never
  completed or failed; and completed is derived from code 100 only.
\<close>

theorem check_job_status_mapping:
  "derive_status (Some 100) = ''completed''
   \<and> derive_status (Some 0) = ''pending''
   \<and> derive_status (Some 1) = ''processing''
   \<and> derive_status (Some 2) = ''processing''
   \<and> derive_status (Some (-1)) = ''failed''
   \<and> derive_status (Some (-2)) = ''cancelled''
   \<and> derive_status (Some 99) = ''expired''
   \<and> derive_status None = ''unknown''
   \<and> (c \<notin> {100, 0, 1, 2, -1, -2, 99} \<longrightarrow>
        derive_status (Some c) = ''unknown''
        \<and> derive_status (Some c) \<noteq> ''completed''
        \<and> derive_status (Some c) \<noteq> ''failed'')
   \<and> (derive_status (Some c) = ''completed'' \<longleftrightarrow> c = 100)"
proof -
  have other: "c \<notin> {100, 0, 1, 2, -1, -2, 99} \<longrightarrow>
        derive_status (Some c) = ''unknown''
        \<and> derive_status (Some c) \<noteq> ''completed''
        \<and> derive_status (Some c) \<noteq> ''failed''"
    by (simp add: derive_status_other)
  have only: "derive_status (Some c) = ''completed'' \<longleftrightarrow> c = 100"
    by (simp add: derive_status_def status_mapping_def)
  have none: "derive_status None = ''unknown''"
    by (simp add: derive_status_def)
  show ?thesis
    using other only none by (simp add: derive_status_table)
qed

theorem check_job_status_mapping_witness:
  "(7::int) \<notin> {100, 0, 1, 2, -1, -2, 99}
   \<and> derive_status (Some 7) = ''unknown''
   \<and> derive_status (Some 7) \<noteq> ''completed''
   \<and> derive_status (Some 7) \<noteq> ''failed''"
  using check_job_status_mapping [of 7] by simp

end
